theory Spec2Isabelle
  imports Complex_Main "HOL-Library.Sublist"
begin

section \<open>The SMS game handler (src/handler.py)\<close>

text \<open>
  A shallow embedding of \<^verbatim>\<open>handler.py\<close>. Python dictionaries with a fixed key set are
  records, a key that may be missing is an \<open>option\<close> field, the DynamoDB table is a map
  from the key attribute \<^verbatim>\<open>phoneNumber\<close> to the stored item, and the effects of a turn
  (table writes, messages handed to the SMS service) are threaded through a \<open>world\<close>
  record.

  Strings are byte lists: a Python \<^verbatim>\<open>str\<close> is represented by its UTF-8 encoding, so the
  three non-ASCII code points of the script (U+2019, U+1F389, U+1F480) are written as their
  bytes. \<^verbatim>\<open>str.strip\<close> and \<^verbatim>\<open>str.upper\<close> are modelled on ASCII: \<open>strip\<close> and
  \<open>upper\<close> below are Python's on a text of ASCII characters (\<open>ascii_text\<close>), and leave
  bytes above 0x7F as they are, where Python also strips Unicode white space and maps
  non-ASCII letters. A property that depends on how a raw text is normalised is stated for
  ASCII texts.
\<close>

subsection \<open>Strings\<close>

definition nl :: string where
  "nl = [CHR 0x0A]"

text \<open>\<^verbatim>\<open>sep.join(xs)\<close>\<close>

fun join :: "string \<Rightarrow> string list \<Rightarrow> string" where
  "join sep [] = []"
| "join sep [x] = x"
| "join sep (x # y # ys) = x @ sep @ join sep (y # ys)"

text \<open>\<^verbatim>\<open>str(n)\<close> for an integer, as an f-string renders it.\<close>

definition digit_char :: "nat \<Rightarrow> char" where
  "digit_char d = ''0123456789'' ! d"

fun str_nat :: "nat \<Rightarrow> string" where
  "str_nat n = (if n < 10 then [digit_char n] else str_nat (n div 10) @ [digit_char (n mod 10)])"

declare str_nat.simps [simp del]

definition str_int :: "int \<Rightarrow> string" where
  "str_int i = (if i < 0 then ''-'' @ str_nat (nat (- i)) else str_nat (nat i))"

text \<open>
  \<^verbatim>\<open>str.isspace\<close> on ASCII: tab, line feed, vertical tab, form feed, carriage return,
  the four separators 0x1C..0x1F and the space.
\<close>

definition is_space :: "char \<Rightarrow> bool" where
  "is_space c = (c \<in> set [CHR 0x09, CHR 0x0A, CHR 0x0B, CHR 0x0C, CHR 0x0D,
                            CHR 0x1C, CHR 0x1D, CHR 0x1E, CHR 0x1F, CHR 0x20])"

definition strip :: "string \<Rightarrow> string" where
  "strip s = rev (dropWhile is_space (rev (dropWhile is_space s)))"

definition upper_char :: "char \<Rightarrow> char" where
  "upper_char c =
     (case map_of (zip ''abcdefghijklmnopqrstuvwxyz'' ''ABCDEFGHIJKLMNOPQRSTUVWXYZ'') c of
        None \<Rightarrow> c | Some u \<Rightarrow> u)"

definition upper :: "string \<Rightarrow> string" where
  "upper s = map upper_char s"

text \<open>\<^verbatim>\<open>s.replace('+', '')\<close>\<close>

definition remove_plus :: "string \<Rightarrow> string" where
  "remove_plus s = filter (\<lambda>c. c \<noteq> CHR ''+'') s"

text \<open>
  \<^verbatim>\<open>int(x)\<close> of a float truncates toward zero. The source multiplies the integer net
  worth by a float in double precision; the model takes the exact rational product. The
  two agree where the factors and the product are doubles: for the script's only
  percentage, \<open>-0.5\<close>, that is every net worth of magnitude up to \<open>2^53\<close>. Beyond it
  the source rounds the net worth to a double first, and raises \<^verbatim>\<open>OverflowError\<close> past
  the range of doubles; neither is modelled, and the property of the percentage delta is
  stated within the bound.
\<close>

definition py_int :: "rat \<Rightarrow> int" where
  "py_int x = (if x < 0 then - \<lfloor>- x\<rfloor> else \<lfloor>x\<rfloor>)"

subsection \<open>The narrative script: \<^verbatim>\<open>GAME_DATA\<close>, \<^verbatim>\<open>RANDOM_EVENTS\<close>, \<^verbatim>\<open>HUSTLE_GOAL\<close>\<close>

text \<open>
  The value under the effect key \<^verbatim>\<open>"net_worth"\<close> is a number or the string
  \<^verbatim>\<open>"die"\<close>.
\<close>

datatype net_worth_effect = Delta int | Die

text \<open>
  An effect dictionary: each of its three keys may be absent. The resolver tests the keys
  in the order \<^verbatim>\<open>"net_worth"\<close>, \<^verbatim>\<open>"net_worth_percentage"\<close>.
\<close>

record effect =
  eff_net_worth :: "net_worth_effect option"
  eff_net_worth_percentage :: "rat option"
  eff_random_event :: "string option"

text \<open>
  \<^verbatim>\<open>outcome.get("next_state")\<close> is \<^verbatim>\<open>None\<close> for a missing key and for a stored
  \<^verbatim>\<open>None\<close> alike, so one \<open>option\<close> covers both.
\<close>

record outcome =
  o_message :: string
  o_effect :: effect
  o_next_state :: "string option"

text \<open>
  \<^verbatim>\<open>random_event_data.get("next_state", default)\<close> tells a missing key (outer \<open>None\<close>)
  from a stored \<^verbatim>\<open>None\<close> (\<open>Some None\<close>).
\<close>

record random_event =
  re_message :: string
  re_effect :: effect
  re_next_state :: "string option option"

record node =
  n_message :: string
  n_options :: "string list"
  n_next_state :: "string option"
  n_outcomes :: "(string \<Rightarrow> outcome option) option"

datatype entry = Node node | Text string

definition delta :: "int \<Rightarrow> effect" where
  "delta d = \<lparr>eff_net_worth = Some (Delta d), eff_net_worth_percentage = None,
              eff_random_event = None\<rparr>"

definition delta_event :: "int \<Rightarrow> string \<Rightarrow> effect" where
  "delta_event d k = \<lparr>eff_net_worth = Some (Delta d), eff_net_worth_percentage = None,
              eff_random_event = Some k\<rparr>"

definition hustle_intro :: node where
  "hustle_intro = \<lparr>
     n_message = ''Welcome to Choose Your Hustle! Reach KES 10,000 net worth. To start, what's your first move?'',
     n_options = [''1. Look for a formal job.'',
                  ''2. Start a small side hustle.'',
                  ''3. Try your luck with a quick crypto trade.''],
     n_next_state = Some ''hustle_q1'',
     n_outcomes = None\<rparr>"

definition hustle_q1 :: node where
  "hustle_q1 = \<lparr>
     n_message = ''A potential investor hears about your idea and wants to invest. He offers a very high amount because he is very intrigued. He is impatient and wants you to go all in or leave it.'',
     n_options = [''1. Take it, no questions asked (Big risk, big reward).'',
                  ''2. Ask for a meeting to review terms (Cautious).'',
                  ''3. Reject, too good to be true (Safe).''],
     n_next_state = None,
     n_outcomes = Some (map_of [
       (''1'', \<lparr>o_message = ''You blindly took the deal! It paid off big time! (+KES 5000)'',
                o_effect = delta 5000, o_next_state = Some ''hustle_q2''\<rparr>),
       (''2'', \<lparr>o_message = ''He got impatient and pulled out. You wasted time. (-KES 1000)'',
                o_effect = delta (- 1000), o_next_state = Some ''hustle_q2''\<rparr>),
       (''3'', \<lparr>o_message = ''You dodged a bullet, but also missed an opportunity. (No change)'',
                o_effect = delta 0, o_next_state = Some ''hustle_q2''\<rparr>)])\<rparr>"

definition hustle_q2 :: node where
  "hustle_q2 = \<lparr>
     n_message = ''Your cousin asks to borrow KES 2000 for an emergency. They promise to pay back next week.'',
     n_options = [''1. Lend them the money (Goodwill).'',
                  ''2. Lend half, keep half (Cautious).'',
                  ''3. Say no, you need the money (Self-preservation).''],
     n_next_state = None,
     n_outcomes = Some (map_of [
       (''1'', \<lparr>o_message = ''You lent the money. Fingers crossed!'',
                o_effect = delta_event (- 2000) ''ghosted'', o_next_state = None\<rparr>),
       (''2'', \<lparr>o_message = ''You lent half. Better safe than sorry.'',
                o_effect = delta (- 1000), o_next_state = Some ''hustle_q3''\<rparr>),
       (''3'', \<lparr>o_message = ''You kept your funds. Wise choice.'',
                o_effect = delta 0, o_next_state = Some ''hustle_q3''\<rparr>)])\<rparr>"

definition hustle_q3 :: node where
  "hustle_q3 = \<lparr>
     n_message = ''A new tech trend emerges: AI-powered personalized fashion. Do you pivot?'',
     n_options = [''1. Go all-in, invest heavily in AI tools (High risk, potential high reward).'',
                  ''2. Research and learn first, make small changes (Calculated risk).'',
                  ''3. Stick to your original plan, avoid fads (Conservative).''],
     n_next_state = None,
     n_outcomes = Some (map_of [
       (''1'', \<lparr>o_message = ''You bet big on AI fashion!'',
                o_effect = delta_event 3000 ''ai_boom_bust'', o_next_state = None\<rparr>),
       (''2'', \<lparr>o_message = ''Your careful pivot yields steady growth. (+KES 1000)'',
                o_effect = delta 1000, o_next_state = Some ''hustle_q4''\<rparr>),
       (''3'', \<lparr>o_message = ''You missed out on new opportunities. (-KES 500)'',
                o_effect = delta (- 500), o_next_state = Some ''hustle_q4''\<rparr>)])\<rparr>"

definition hustle_q4 :: node where
  "hustle_q4 = \<lparr>
     n_message = ''Your biggest competitor offers to buy your side hustle for KES 8,000. Do you sell or keep building?'',
     n_options = [''1. Sell now, take the guaranteed money.'',
                  ''2. Reject, you believe it's worth more.'',
                  ''3. Counter-offer for KES 12,000.''],
     n_next_state = None,
     n_outcomes = Some (map_of [
       (''1'', \<lparr>o_message = ''You sold your hustle! A solid exit. (+KES 8000)'',
                o_effect = delta 8000, o_next_state = Some ''check_win''\<rparr>),
       (''2'', \<lparr>o_message = ''You hold on, hoping for more. (-KES 1500)'',
                o_effect = delta_event (- 1500) ''market_crash'', o_next_state = None\<rparr>),
       (''3'', \<lparr>o_message = ''Your counter-offer was too high. They walked away.'',
                o_effect = delta_event 0 ''negotiation_fail'', o_next_state = None\<rparr>)])\<rparr>"

definition skull :: string where
  "skull = [CHR 0xF0, CHR 0x9F, CHR 0x92, CHR 0x80]"

definition death_scam :: string where
  "death_scam = ''You joined a WhatsApp forex group. Now you'' @ [CHR 0xE2, CHR 0x80, CHR 0x99]
     @ ''re broke and blocked. '' @ skull @ '' Reply RESTART to start again.''"

definition death_starved :: string where
  "death_starved = ''You thought wild berries were a meal. They were poison. You now rest with the frogs. ''
     @ skull @ '' Reply RESTART to start again.''"

definition win_hustle :: string where
  "win_hustle = ''Congratulations! You hustled your way to KES 10,000! You're a true urban survivor! ''
     @ [CHR 0xF0, CHR 0x9F, CHR 0x8E, CHR 0x89] @ '' Reply RESTART to play again.''"

definition default_death :: string where
  "default_death = ''You made a fatal error. Your hustle ended here. '' @ skull
     @ '' Reply RESTART to start again.''"

definition GAME_DATA :: "string \<Rightarrow> entry option" where
  "GAME_DATA = map_of [
     (''hustle_intro'', Node hustle_intro),
     (''hustle_q1'', Node hustle_q1),
     (''hustle_q2'', Node hustle_q2),
     (''hustle_q3'', Node hustle_q3),
     (''hustle_q4'', Node hustle_q4),
     (''death_scam'', Text death_scam),
     (''death_starved'', Text death_starved),
     (''win_hustle'', Text win_hustle),
     (''default_death'', Text default_death)]"

text \<open>\<^verbatim>\<open>GAME_DATA.get(key)\<close>, where the key may be \<^verbatim>\<open>None\<close>.\<close>

definition GAME_DATA_get :: "string option \<Rightarrow> entry option" where
  "GAME_DATA_get k = (case k of None \<Rightarrow> None | Some key \<Rightarrow> GAME_DATA key)"

definition RANDOM_EVENTS :: "string \<Rightarrow> random_event option" where
  "RANDOM_EVENTS = map_of [
     (''ghosted'', \<lparr>
        re_message = ''Oh no! Your cousin ghosted you! That KES 2000 is gone forever. (-KES 2000)'',
        re_effect = delta (- 2000), re_next_state = Some (Some ''hustle_q3'')\<rparr>),
     (''ponzi'', \<lparr>
        re_message = ''You invested in a 'guaranteed' crypto scheme. It was a Ponzi. You lost everything! (-ALL)'',
        re_effect = \<lparr>eff_net_worth = Some Die, eff_net_worth_percentage = None,
                      eff_random_event = None\<rparr>,
        re_next_state = Some None\<rparr>),
     (''ai_boom_bust'', \<lparr>
        re_message = ''The AI bubble burst! You lost half your net worth but learned a valuable lesson. (-HALF)'',
        re_effect = \<lparr>eff_net_worth = None, eff_net_worth_percentage = Some (- (1 / 2)),
                      eff_random_event = None\<rparr>,
        re_next_state = Some (Some ''hustle_q4'')\<rparr>),
     (''market_crash'', \<lparr>
        re_message = ''The market crashed right after you rejected the offer! Your hustle's value plummeted. (-ALL)'',
        re_effect = \<lparr>eff_net_worth = Some Die, eff_net_worth_percentage = None,
                      eff_random_event = None\<rparr>,
        re_next_state = Some None\<rparr>),
     (''negotiation_fail'', \<lparr>
        re_message = ''Your reputation for greed spread. No one wants to do business with you. (-1000)'',
        re_effect = delta (- 1000), re_next_state = Some (Some ''hustle_q4'')\<rparr>)]"

definition HUSTLE_GOAL :: int where
  "HUSTLE_GOAL = 10000"

subsection \<open>The player progress record and the store\<close>

record user_state =
  phoneNumber :: string
  game :: "string option"
  status :: string
  net_worth :: int
  days_survived :: int
  current_q :: "string option"

text \<open>
  What a turn can touch: the DynamoDB table (\<open>None\<close> when \<^verbatim>\<open>USERS_TABLE\<close> is not set, so
  \<^verbatim>\<open>users_table\<close> is \<^verbatim>\<open>None\<close>), the items handed to \<^verbatim>\<open>put_item\<close> so far, whether the
  SMS service was initialised, and the messages handed to it so far. The calls to the
  table and to the SMS service are taken to succeed when the service is there: the
  \<^verbatim>\<open>except\<close> branches of lines 171--173 and 188--190, which log and answer \<^verbatim>\<open>None\<close>
  and \<^verbatim>\<open>False\<close>, are not modelled. The table here keeps whatever item it is given; the
  real table refuses an item outside its limits (\<open>storable\<close> below), and the round trip
  through the table is stated for items within them.
\<close>

record world =
  users_table :: "(string \<Rightarrow> user_state option) option"
  puts :: "user_state list"
  sms_service :: bool
  outbox :: "(string \<times> string) list"

text \<open>
  \<^verbatim>\<open>get_user_state\<close>: \<^verbatim>\<open>int()\<close> of a stored integer is the integer; the empty string
  under \<^verbatim>\<open>game\<close> and \<^verbatim>\<open>current_q\<close> is read as \<^verbatim>\<open>None\<close>.
\<close>

definition get_user_state :: "world \<Rightarrow> string \<Rightarrow> user_state option" where
  "get_user_state w db_phone_number =
     (case users_table w of
        None \<Rightarrow> None
      | Some table \<Rightarrow>
          (case table db_phone_number of
             None \<Rightarrow> None
           | Some item \<Rightarrow>
               Some (item\<lparr>game := (if game item = Some [] then None else game item),
                          current_q := (if current_q item = Some [] then None
                                        else current_q item)\<rparr>)))"

text \<open>\<^verbatim>\<open>save_user_state\<close>: \<^verbatim>\<open>None\<close> is stored as the empty string.\<close>

definition save_user_state :: "user_state \<Rightarrow> world \<Rightarrow> bool \<times> world" where
  "save_user_state user_state w =
     (case users_table w of
        None \<Rightarrow> (False, w)
      | Some table \<Rightarrow>
          (let item_to_save =
                 user_state\<lparr>game := (if game user_state = None then Some []
                                      else game user_state),
                            current_q := (if current_q user_state = None then Some []
                                          else current_q user_state)\<rparr>
           in (True, w\<lparr>users_table := Some (table(phoneNumber item_to_save \<mapsto> item_to_save)),
                       puts := puts w @ [item_to_save]\<rparr>)))"

definition send_sms_reply :: "string \<Rightarrow> string \<Rightarrow> world \<Rightarrow> world" where
  "send_sms_reply recipient_number message_text w =
     (if sms_service w then w\<lparr>outbox := outbox w @ [(recipient_number, message_text)]\<rparr>
      else w)"

subsection \<open>The outcome resolver: \<^verbatim>\<open>apply_outcome_and_get_message\<close>\<close>

text \<open>The three assignments the source makes wherever a player is eliminated.\<close>

definition set_dead :: "user_state \<Rightarrow> user_state" where
  "set_dead user_state = user_state\<lparr>status := ''dead'', game := None, current_q := None\<rparr>"

text \<open>
  Lines 198--207, and again 215--224 with the random event's effect: the source has the
  same block twice, on \<^verbatim>\<open>outcome["effect"]\<close> and on \<^verbatim>\<open>random_event_data["effect"]\<close>.
\<close>

definition apply_effect :: "effect \<Rightarrow> string \<times> user_state \<Rightarrow> string \<times> user_state" where
  "apply_effect e = (\<lambda>(reply_msg, user_state).
     case eff_net_worth e of
       Some Die \<Rightarrow> (default_death, set_dead user_state)
     | Some (Delta d) \<Rightarrow> (reply_msg, user_state\<lparr>net_worth := net_worth user_state + d\<rparr>)
     | None \<Rightarrow>
        (case eff_net_worth_percentage e of
           Some p \<Rightarrow>
             (reply_msg,
              user_state\<lparr>net_worth := net_worth user_state
                            + py_int (of_int (net_worth user_state) * p)\<rparr>)
         | None \<Rightarrow> (reply_msg, user_state)))"

text \<open>Lines 210--227: the random event, when the effect names one that exists.\<close>

definition apply_random_event ::
    "outcome \<Rightarrow> string \<times> user_state \<Rightarrow> string \<times> string option \<times> user_state" where
  "apply_random_event oc = (\<lambda>(reply_msg, user_state).
     case eff_random_event (o_effect oc) of
       None \<Rightarrow> (reply_msg, o_next_state oc, user_state)
     | Some event_key \<Rightarrow>
        (case RANDOM_EVENTS event_key of
           None \<Rightarrow> (reply_msg, o_next_state oc, user_state)
         | Some random_event_data \<Rightarrow>
            (let (reply_msg', user_state') =
                   apply_effect (re_effect random_event_data)
                     (reply_msg @ nl @ re_message random_event_data, user_state)
             in (reply_msg',
                 (case re_next_state random_event_data of
                    None \<Rightarrow> o_next_state oc
                  | Some n \<Rightarrow> n),
                 user_state'))))"

text \<open>Lines 229--231.\<close>

definition clamp :: "user_state \<Rightarrow> user_state" where
  "clamp user_state =
     (if status user_state = ''alive'' \<and> net_worth user_state < 0
      then user_state\<lparr>net_worth := 0\<rparr> else user_state)"

text \<open>
  Lines 194--231: the reply, the pending next node and the record as they stand when the
  win check is reached.
\<close>

definition before_win_check ::
    "outcome \<Rightarrow> user_state \<Rightarrow> string \<times> string option \<times> user_state" where
  "before_win_check oc user_state =
     (let (reply_msg, next_q_key_after_outcome, user_state') =
            apply_random_event oc (apply_effect (o_effect oc) (o_message oc, user_state))
      in (reply_msg, next_q_key_after_outcome, clamp user_state'))"

text \<open>
  Lines 233--242. \<^verbatim>\<open>x if x else "hustle_intro"\<close> takes the default for \<^verbatim>\<open>None\<close> and
  for the empty string.
\<close>

definition apply_outcome_and_get_message ::
    "outcome \<Rightarrow> user_state \<Rightarrow> string \<times> user_state" where
  "apply_outcome_and_get_message oc user_state0 =
     (let (reply_msg, next_q_key_after_outcome, user_state) = before_win_check oc user_state0
      in if status user_state = ''alive'' \<and> net_worth user_state \<ge> HUSTLE_GOAL then
           (reply_msg @ nl @ win_hustle @ nl @ ''Current Net Worth: KES ''
              @ str_int (net_worth user_state),
            set_dead user_state)
         else if status user_state = ''alive'' then
           (reply_msg,
            user_state\<lparr>current_q :=
              (case next_q_key_after_outcome of
                 None \<Rightarrow> Some ''hustle_intro''
               | Some k \<Rightarrow> if k = [] then Some ''hustle_intro'' else Some k)\<rparr>)
         else (reply_msg, user_state))"

subsection \<open>The turn orchestrator: \<^verbatim>\<open>inbound_sms_handler\<close>\<close>

text \<open>
  The fields of the webhook event the handler reads, after the transport's decoding
  (\<^verbatim>\<open>parse_qs\<close> of a form body, or the event's own keys): the sender and the raw text,
  each possibly missing.
\<close>

record event =
  ev_from :: "string option"
  ev_text :: "string option"

record response =
  statusCode :: nat
  body_message :: string

definition fresh_state :: "string \<Rightarrow> user_state" where
  "fresh_state db_phone_number =
     \<lparr>phoneNumber = db_phone_number, game = None, status = ''alive'', net_worth = 0,
      days_survived = 0, current_q = None\<rparr>"

definition menu_lines :: string where
  "menu_lines = ''What game do you want to play?'' @ nl @ ''1. Choose Your Hustle'' @ nl
     @ ''2. Pick Up or Perish''"

text \<open>
  \<^verbatim>\<open>"outcomes" in d\<close> and \<^verbatim>\<open>"options" in d\<close> for \<^verbatim>\<open>d = GAME_DATA.get(key)\<close>. A prompt
  node has the key or not; every prompt node of the script has \<^verbatim>\<open>"options"\<close>. On a
  terminal entry, a string, Python's \<^verbatim>\<open>in\<close> is the substring test, which is false for
  the four terminal strings of the script (\<open>terminal_texts_hold_no_key\<close> below).
\<close>

definition outcomes_of :: "entry option \<Rightarrow> (string \<Rightarrow> outcome option) option" where
  "outcomes_of d = (case d of Some (Node n) \<Rightarrow> n_outcomes n | _ \<Rightarrow> None)"

definition options_of :: "entry option \<Rightarrow> string list option" where
  "options_of d = (case d of Some (Node n) \<Rightarrow> Some (n_options n) | _ \<Rightarrow> None)"

text \<open>
  Lines 365--378, and again 412--425: after an outcome, the prompt of the new current node,
  nothing for the \<^verbatim>\<open>check_win\<close> marker, or the forced end of the game.
\<close>

definition next_prompt :: "string \<times> user_state \<Rightarrow> string \<times> user_state" where
  "next_prompt = (\<lambda>(reply_message, current_user_state).
     if status current_user_state = ''alive'' then
       (case GAME_DATA_get (current_q current_user_state) of
          Some (Node next_q_data) \<Rightarrow>
            (reply_message @ nl @ nl @ ''Current Net Worth: KES ''
               @ str_int (net_worth current_user_state) @ nl
               @ n_message next_q_data @ nl @ join nl (n_options next_q_data),
             current_user_state)
        | _ \<Rightarrow>
            if current_q current_user_state = Some ''check_win'' then
              (reply_message, current_user_state)
            else
              (reply_message @ nl @ ''Unexpected game end. Reply RESTART to start again.'',
               set_dead current_user_state))
     else (reply_message, current_user_state))"

text \<open>Lines 343--387: the turn of a player at the intro node, up to the save.\<close>

definition intro_turn :: "string \<Rightarrow> user_state \<Rightarrow> string \<times> user_state" where
  "intro_turn text_message current_user_state =
     (if text_message \<in> set [''1'', ''2'', ''3''] then
        (let st = current_user_state\<lparr>current_q := n_next_state hustle_intro\<rparr>
         in case outcomes_of (GAME_DATA_get (n_next_state hustle_intro)) of
              None \<Rightarrow>
                (''Error: Game setup for hustle_q1 is incorrect. Reply RESTART.'', set_dead st)
            | Some outcomes \<Rightarrow>
                (case outcomes text_message of
                   Some oc \<Rightarrow> next_prompt (apply_outcome_and_get_message oc st)
                 | None \<Rightarrow>
                     (''Invalid choice. Please reply with 1, 2, or 3 for your first move.''
                        @ nl @ join nl (n_options hustle_intro),
                      st)))
      else
        (''Please choose a valid option (1, 2, or 3) to start your hustle.''
           @ nl @ join nl (n_options hustle_intro),
         current_user_state))"

text \<open>Lines 321--334: the player has no game yet.\<close>

definition game_selection ::
    "string \<Rightarrow> string \<Rightarrow> user_state \<Rightarrow> world \<Rightarrow> response \<times> world" where
  "game_selection original_from_number text_message current_user_state w =
     (let (reply_message, w') =
        (if text_message = ''1'' \<or> text_message = ''CHOOSE YOUR HUSTLE''
            \<or> text_message = ''HUSTLE'' then
           (n_message hustle_intro @ nl @ join nl (n_options hustle_intro),
            snd (save_user_state
                   (current_user_state\<lparr>game := Some ''hustle'',
                                       current_q := Some ''hustle_intro''\<rparr>) w))
         else if text_message = ''2'' \<or> text_message = ''PICK UP OR PERISH''
            \<or> text_message = ''PERISH'' then
           (''Pick Up or Perish is not ready yet. Try Choose Your Hustle (reply 1).'', w)
         else (''Welcome! '' @ menu_lines, w))
      in (\<lparr>statusCode = 200, body_message = ''Game selection handled.''\<rparr>,
          send_sms_reply original_from_number reply_message w'))"

text \<open>Lines 338--441: a game of hustle in progress, the player alive.\<close>

definition hustle_turn ::
    "string \<Rightarrow> string \<Rightarrow> user_state \<Rightarrow> world \<Rightarrow> response \<times> world" where
  "hustle_turn original_from_number text_message current_user_state w =
     (let current_q_key = current_q current_user_state;
          current_q_data = GAME_DATA_get current_q_key
      in if current_q_key = Some ''hustle_intro'' then
           (let (reply_message, st) = intro_turn text_message current_user_state;
                w' = snd (save_user_state st w)
            in (\<lparr>statusCode = 200, body_message = ''Hustle intro choice processed.''\<rparr>,
                send_sms_reply original_from_number reply_message w'))
         else
           (case outcomes_of current_q_data of
              None \<Rightarrow>
                (let w' = snd (save_user_state (set_dead current_user_state) w)
                 in (\<lparr>statusCode = 200, body_message = ''Error in game state.''\<rparr>,
                     send_sms_reply original_from_number
                       ''Error: Invalid game state (missing outcomes for current question). Reply RESTART to begin anew.''
                       w'))
            | Some outcomes \<Rightarrow>
                (let (reply_message, w') =
                   (if text_message \<in> set [''1'', ''2'', ''3''] then
                      (case outcomes text_message of
                         Some oc \<Rightarrow>
                           (let (reply, st) =
                                  next_prompt (apply_outcome_and_get_message oc current_user_state)
                            in (reply, snd (save_user_state st w)))
                       | None \<Rightarrow>
                           (''Invalid choice. Please reply with 1, 2, or 3.''
                              @ (case options_of current_q_data of
                                   Some options \<Rightarrow> nl @ join nl options
                                 | None \<Rightarrow> nl @ ''Reply RESTART to begin anew.''),
                            w))
                    else
                      (''I don't understand that. Please choose an option (1, 2, 3) or reply RESTART.''
                         @ (case options_of current_q_data of
                              Some options \<Rightarrow> nl @ join nl options
                            | None \<Rightarrow> []),
                       w))
                 in (\<lparr>statusCode = 200,
                      body_message = ''SMS received and processed successfully!''\<rparr>,
                     send_sms_reply original_from_number reply_message w'))))"

text \<open>
  Lines 283--448: the turn, once the sender and the normalised text are known. The record
  is loaded, or created when the table has none; then the first branch that applies runs:
  the restart command, the game selection, the game in progress, and last the plain send of
  the reply composed so far, which is empty.
\<close>

definition process_message :: "string \<Rightarrow> string \<Rightarrow> world \<Rightarrow> response \<times> world" where
  "process_message original_from_number text_message w =
     (let db_phone_number = remove_plus original_from_number;
          current_user_state =
            (case get_user_state w db_phone_number of
               None \<Rightarrow> fresh_state db_phone_number
             | Some loaded \<Rightarrow> loaded)
      in if text_message = ''RESTART'' then
           (let w' = snd (save_user_state (fresh_state db_phone_number) w)
            in (\<lparr>statusCode = 200, body_message = ''Game restarted.''\<rparr>,
                send_sms_reply original_from_number (''Welcome back! '' @ menu_lines) w'))
         else if game current_user_state = None then
           game_selection original_from_number text_message current_user_state w
         else if game current_user_state = Some ''hustle''
                 \<and> status current_user_state = ''alive'' then
           hustle_turn original_from_number text_message current_user_state w
         else
           (\<lparr>statusCode = 200, body_message = ''SMS received and processed successfully!''\<rparr>,
            send_sms_reply original_from_number [] w))"

text \<open>
  Lines 245--281. A missing text makes \<^verbatim>\<open>.strip()\<close> raise inside the \<^verbatim>\<open>try\<close>, which
  answers 400; a missing or empty sender, or a text that is empty once stripped, answers
  400 as well. Neither touches the table or sends a message.
\<close>

definition inbound_sms_handler :: "event \<Rightarrow> world \<Rightarrow> response \<times> world" where
  "inbound_sms_handler ev w =
     (case ev_text ev of
        None \<Rightarrow>
          (\<lparr>statusCode = 400, body_message = ''Bad Request: Could not parse SMS body''\<rparr>, w)
      | Some raw_text \<Rightarrow>
         (let text_message = upper (strip raw_text)
          in case ev_from ev of
               None \<Rightarrow>
                 (\<lparr>statusCode = 400, body_message = ''Bad Request: Missing SMS parameters''\<rparr>, w)
             | Some original_from_number \<Rightarrow>
                 if original_from_number = [] \<or> text_message = [] then
                   (\<lparr>statusCode = 400,
                     body_message = ''Bad Request: Missing SMS parameters''\<rparr>, w)
                 else process_message original_from_number text_message w))"

text \<open>A conversation: the handler run on each inbound event in turn.\<close>

fun run_turns :: "event list \<Rightarrow> world \<Rightarrow> world" where
  "run_turns [] w = w"
| "run_turns (ev # evs) w = run_turns evs (snd (inbound_sms_handler ev w))"

subsection \<open>Notions used to state the properties\<close>

text \<open>
  The random event an outcome triggers: the one its effect names, when
  \<^verbatim>\<open>RANDOM_EVENTS\<close> has it (lines 210--213).
\<close>

definition triggered_event :: "outcome \<Rightarrow> random_event option" where
  "triggered_event oc =
     (case eff_random_event (o_effect oc) of None \<Rightarrow> None | Some k \<Rightarrow> RANDOM_EVENTS k)"

text \<open>
  The spec's words for the restart command: the input ``case-insensitively equals'' the
  keyword. Two strings are equal without regard to case when they agree once every ASCII
  capital is replaced by its small letter.
\<close>

definition lower_char :: "char \<Rightarrow> char" where
  "lower_char c =
     (case map_of (zip ''ABCDEFGHIJKLMNOPQRSTUVWXYZ'' ''abcdefghijklmnopqrstuvwxyz'') c of
        None \<Rightarrow> c | Some l \<Rightarrow> l)"

definition ci_equal :: "string \<Rightarrow> string \<Rightarrow> bool" where
  "ci_equal a b = (map lower_char a = map lower_char b)"


text \<open>
  The records the program holds never have the empty string for the game or the current
  node: a loaded empty string is read as \<^verbatim>\<open>None\<close> (lines 166--167), and the program
  itself sets only \<^verbatim>\<open>None\<close>, \<^verbatim>\<open>"hustle"\<close> and the non-empty keys of the script
  (\<open>loaded_no_empty_key\<close>, \<open>resolver_no_empty_key\<close> and the lemmas beside them).
\<close>

definition no_empty_key :: "user_state \<Rightarrow> bool" where
  "no_empty_key s = (game s \<noteq> Some [] \<and> current_q s \<noteq> Some [])"

text \<open>
  The limits of the table, which are the table service's and not the source's: a key of 1
  to 2048 bytes, numbers of at most 38 digits, and an item of at most 400 KB, for which it
  is enough that the strings of the record have no more than 400000 bytes together.
\<close>

definition storable :: "user_state \<Rightarrow> bool" where
  "storable s =
     (phoneNumber s \<noteq> [] \<and> length (phoneNumber s) \<le> 2048
      \<and> \<bar>net_worth s\<bar> < 10 ^ 38 \<and> \<bar>days_survived s\<bar> < 10 ^ 38
      \<and> length (phoneNumber s) + length (status s)
          + (case game s of None \<Rightarrow> 0 | Some g \<Rightarrow> length g)
          + (case current_q s of None \<Rightarrow> 0 | Some q \<Rightarrow> length q) \<le> 400000)"

text \<open>
  Example inputs: a world with an initialised, empty table and a working SMS service, the
  world whose table holds one given item, a text message of one fixed sender, and that
  sender's record.
\<close>

definition no_players :: world where
  "no_players = \<lparr>users_table = Some Map.empty, puts = [], sms_service = True, outbox = []\<rparr>"

definition holding :: "user_state \<Rightarrow> world" where
  "holding item = \<lparr>users_table = Some [phoneNumber item \<mapsto> item], puts = [],
                    sms_service = True, outbox = []\<rparr>"

definition sms :: "string \<Rightarrow> event" where
  "sms t = \<lparr>ev_from = Some ''+254700000001'', ev_text = Some t\<rparr>"

definition player_at :: "string option \<Rightarrow> string \<Rightarrow> int \<Rightarrow> string option \<Rightarrow> user_state" where
  "player_at g s n q = \<lparr>phoneNumber = ''254700000001'', game = g, status = s, net_worth = n,
      days_survived = 0, current_q = q\<rparr>"

section \<open>Properties of the outcome resolver\<close>

lemmas resolver_defs =
  apply_outcome_and_get_message_def before_win_check_def apply_random_event_def
  apply_effect_def clamp_def set_dead_def

lemmas script_defs =
  delta_def delta_event_def RANDOM_EVENTS_def HUSTLE_GOAL_def py_int_def

lemma sublist_in_reply: "sublist xs (a @ b @ xs @ c)"
proof -
  have "a @ b @ xs @ c = (a @ b) @ xs @ c" by simp
  then show ?thesis unfolding sublist_def by blast
qed

lemma status_apply_effect:
  "status (snd (apply_effect e (r, s))) = status s
   \<or> status (snd (apply_effect e (r, s))) = ''dead''"
  by (simp add: apply_effect_def set_dead_def split: option.splits net_worth_effect.splits)

lemma status_apply_random_event:
  "status (snd (snd (apply_random_event oc (r, s)))) = status s
   \<or> status (snd (snd (apply_random_event oc (r, s)))) = ''dead''"
proof (cases "eff_random_event (o_effect oc)")
  case None
  then show ?thesis by (simp add: apply_random_event_def)
next
  case (Some k)
  show ?thesis
  proof (cases "RANDOM_EVENTS k")
    case None
    with Some show ?thesis by (simp add: apply_random_event_def)
  next
    case (Some ev)
    with \<open>eff_random_event (o_effect oc) = Some k\<close>
    have "snd (snd (apply_random_event oc (r, s)))
        = snd (apply_effect (re_effect ev) (r @ nl @ re_message ev, s))"
      by (simp add: apply_random_event_def split: prod.splits)
    then show ?thesis
      using status_apply_effect [of "re_effect ev" "r @ nl @ re_message ev" s] by simp
  qed
qed

lemma status_clamp: "status (clamp s) = status s"
  by (simp add: clamp_def)

lemma clamp_nonneg: "status (clamp s) = ''alive'' \<Longrightarrow> 0 \<le> net_worth (clamp s)"
  by (simp add: clamp_def split: if_splits)

lemma before_win_check_clamped:
  "snd (snd (before_win_check oc st))
     = clamp (snd (snd (apply_random_event oc
                          (apply_effect (o_effect oc) (o_message oc, st)))))"
  by (simp add: before_win_check_def split: prod.splits)

lemma resolver_result:
  "snd (apply_outcome_and_get_message oc st) =
     (let s = snd (snd (before_win_check oc st)) in
      if status s = ''alive'' \<and> HUSTLE_GOAL \<le> net_worth s then set_dead s
      else if status s = ''alive'' then
        s\<lparr>current_q := (case fst (snd (before_win_check oc st)) of
                 None \<Rightarrow> Some ''hustle_intro''
               | Some k \<Rightarrow> if k = [] then Some ''hustle_intro'' else Some k)\<rparr>
      else s)"
  by (simp add: apply_outcome_and_get_message_def Let_def split: prod.splits)

lemma alive_before_win_check:
  assumes "status (snd (snd (before_win_check oc st))) = ''alive''"
  shows "status st = ''alive''"
proof -
  obtain r1 s1 where own: "apply_effect (o_effect oc) (o_message oc, st) = (r1, s1)"
    by (cases "apply_effect (o_effect oc) (o_message oc, st)")
  have a: "status (snd (snd (apply_random_event oc (r1, s1)))) = ''alive''"
    using assms own by (simp add: before_win_check_clamped status_clamp)
  have "status s1 = ''alive''"
    using status_apply_random_event [of oc r1 s1] a by auto
  then show ?thesis
    using status_apply_effect [of "o_effect oc" "o_message oc" st] own by auto
qed

lemma alive_result_below_goal:
  "status (snd (apply_outcome_and_get_message oc st)) = ''alive''
   \<Longrightarrow> net_worth (snd (apply_outcome_and_get_message oc st)) < HUSTLE_GOAL"
  by (simp add: resolver_result Let_def set_dead_def split: if_splits)

text \<open>
  C1. Whenever the effects of an outcome (its own and its random event's, clamped) leave
  the record alive with a net worth of at least the goal, the resolver returns the record
  dead, with no game and no current node, and a reply that contains the win message.
  The record reached by the win check can only be alive if the record passed in was.
\<close>

theorem win_check_ends_game:
  assumes "before_win_check oc st = (reply_msg, pending_next, st')"
    and "status st' = ''alive''"
    and "HUSTLE_GOAL \<le> net_worth st'"
  shows "status (snd (apply_outcome_and_get_message oc st)) = ''dead''
       \<and> game (snd (apply_outcome_and_get_message oc st)) = None
       \<and> current_q (snd (apply_outcome_and_get_message oc st)) = None
       \<and> sublist win_hustle (fst (apply_outcome_and_get_message oc st))"
proof -
  have res: "apply_outcome_and_get_message oc st =
      (reply_msg @ nl @ win_hustle @ (nl @ ''Current Net Worth: KES '' @ str_int (net_worth st')),
       set_dead st')"
    using assms by (simp add: apply_outcome_and_get_message_def)
  have "sublist win_hustle
      (reply_msg @ nl @ win_hustle @ (nl @ ''Current Net Worth: KES '' @ str_int (net_worth st')))"
    by (rule sublist_in_reply)
  with res show ?thesis by (simp add: set_dead_def)
qed

text \<open>
  The scenario of the script: at \<^verbatim>\<open>hustle_q4\<close> with a net worth of 2500, selling
  (\<open>+8000\<close>) reaches 10500.
\<close>

theorem win_check_ends_game_witness:
  "(let oc = \<lparr>o_message = ''You sold your hustle! A solid exit. (+KES 8000)'',
               o_effect = delta 8000, o_next_state = Some ''check_win''\<rparr>;
        st = \<lparr>phoneNumber = ''254700000001'', game = Some ''hustle'', status = ''alive'',
               net_worth = 2500, days_survived = 0, current_q = Some ''hustle_q4''\<rparr>
    in before_win_check oc st = (o_message oc, Some ''check_win'', st\<lparr>net_worth := 10500\<rparr>)
       \<and> status (st\<lparr>net_worth := 10500\<rparr>) = ''alive''
       \<and> HUSTLE_GOAL \<le> net_worth (st\<lparr>net_worth := 10500\<rparr>)
       \<and> status (snd (apply_outcome_and_get_message oc st)) = ''dead''
       \<and> game (snd (apply_outcome_and_get_message oc st)) = None
       \<and> current_q (snd (apply_outcome_and_get_message oc st)) = None
       \<and> sublist win_hustle (fst (apply_outcome_and_get_message oc st)))"
proof -
  define oc where "oc = \<lparr>o_message = ''You sold your hustle! A solid exit. (+KES 8000)'',
               o_effect = delta 8000, o_next_state = Some ''check_win''\<rparr>"
  define st where "st = \<lparr>phoneNumber = ''254700000001'', game = Some ''hustle'',
               status = ''alive'', net_worth = 2500, days_survived = 0,
               current_q = Some ''hustle_q4''\<rparr>"
  have b: "before_win_check oc st = (o_message oc, Some ''check_win'', st\<lparr>net_worth := 10500\<rparr>)"
    by (simp add: oc_def st_def before_win_check_def apply_random_event_def apply_effect_def
          clamp_def delta_def)
  have a: "status (st\<lparr>net_worth := 10500\<rparr>) = ''alive''"
    by (simp add: st_def)
  have g: "HUSTLE_GOAL \<le> net_worth (st\<lparr>net_worth := 10500\<rparr>)"
    by (simp add: HUSTLE_GOAL_def)
  from win_check_ends_game [OF b a g] b a g show ?thesis
    unfolding oc_def st_def Let_def by blast
qed

text \<open>
  C2. A record the resolver returns alive has a net worth of at least zero: a negative
  value exists only between the effects and the clamp.
\<close>

theorem alive_net_worth_nonneg:
  "status (snd (apply_outcome_and_get_message oc st)) = ''alive''
   \<Longrightarrow> 0 \<le> net_worth (snd (apply_outcome_and_get_message oc st))"
  using clamp_nonneg [of "snd (snd (apply_random_event oc
                                      (apply_effect (o_effect oc) (o_message oc, st))))"]
  by (simp add: resolver_result before_win_check_clamped Let_def set_dead_def
        split: if_splits)

text \<open>
  At \<^verbatim>\<open>hustle_q2\<close> with nothing, lending the money takes the net worth to \<open>-4000\<close>
  before the clamp; the record comes back alive with 0.
\<close>

theorem alive_net_worth_nonneg_witness:
  "(let oc = \<lparr>o_message = ''You lent the money. Fingers crossed!'',
               o_effect = delta_event (- 2000) ''ghosted'', o_next_state = None\<rparr>;
        st = \<lparr>phoneNumber = ''254700000001'', game = Some ''hustle'', status = ''alive'',
               net_worth = 0, days_survived = 0, current_q = Some ''hustle_q2''\<rparr>
    in status (snd (apply_outcome_and_get_message oc st)) = ''alive''
       \<and> net_worth (snd (snd (apply_random_event oc (apply_effect (o_effect oc) (o_message oc, st)))))
           = - 4000
       \<and> 0 \<le> net_worth (snd (apply_outcome_and_get_message oc st)))"
proof -
  define oc where "oc = \<lparr>o_message = ''You lent the money. Fingers crossed!'',
               o_effect = delta_event (- 2000) ''ghosted'', o_next_state = None\<rparr>"
  define st where "st = \<lparr>phoneNumber = ''254700000001'', game = Some ''hustle'',
               status = ''alive'', net_worth = 0, days_survived = 0,
               current_q = Some ''hustle_q2''\<rparr>"
  have a: "status (snd (apply_outcome_and_get_message oc st)) = ''alive''"
    by (simp add: oc_def st_def resolver_defs script_defs)
  have t: "net_worth (snd (snd (apply_random_event oc (apply_effect (o_effect oc) (o_message oc, st)))))
           = - 4000"
    by (simp add: oc_def st_def resolver_defs script_defs)
  from alive_net_worth_nonneg [OF a] a t show ?thesis
    unfolding oc_def st_def Let_def by blast
qed

lemma apply_random_event_none:
  "triggered_event oc = None \<Longrightarrow> apply_random_event oc (r, s) = (r, o_next_state oc, s)"
  by (auto simp: triggered_event_def apply_random_event_def split: option.splits)

lemma apply_random_event_some:
  "triggered_event oc = Some ev \<Longrightarrow>
   apply_random_event oc (r, s) =
     (fst (apply_effect (re_effect ev) (r @ nl @ re_message ev, s)),
      (case re_next_state ev of None \<Rightarrow> o_next_state oc | Some n \<Rightarrow> n),
      snd (apply_effect (re_effect ev) (r @ nl @ re_message ev, s)))"
  by (auto simp: triggered_event_def apply_random_event_def split: option.splits prod.splits)


lemma floor_rat_numeral_div [simp]:
  "\<lfloor>numeral a / numeral b :: rat\<rfloor> = numeral a div numeral b"
  by (metis floor_divide_of_int_eq of_int_numeral)

lemma floor_rat_minus_numeral_div [simp]:
  "\<lfloor>- (numeral a / numeral b) :: rat\<rfloor> = - numeral a div numeral b"
  by (metis divide_minus_left floor_divide_of_int_eq of_int_neg_numeral of_int_numeral)

lemma py_int_toward_zero: "py_int x = (if x < 0 then \<lceil>x\<rceil> else \<lfloor>x\<rfloor>)"
  by (simp add: py_int_def ceiling_def)

lemma net_worth_result:
  "net_worth (snd (apply_outcome_and_get_message oc st))
     = net_worth (snd (snd (before_win_check oc st)))"
  by (simp add: resolver_result Let_def set_dead_def)







text \<open>
  C5, as the claim states it, fails: \<^verbatim>\<open>int()\<close> rounds toward zero, not toward negative
  infinity. At \<^verbatim>\<open>hustle_q3\<close>, choice 1, with a net worth of 1, the event halves 3001:
  \<open>3001 * -0.5 = -1500.5\<close> is truncated to \<open>-1500\<close>, where the floor is \<open>-1501\<close>.
\<close>

theorem percentage_delta_counterexample:
  "net_worth (snd (apply_outcome_and_get_message
       \<lparr>o_message = ''You bet big on AI fashion!'',
        o_effect = delta_event 3000 ''ai_boom_bust'', o_next_state = None\<rparr>
       \<lparr>phoneNumber = ''254700000001'', game = Some ''hustle'', status = ''alive'',
        net_worth = 1, days_survived = 0, current_q = Some ''hustle_q3''\<rparr>)) = 1501
   \<and> (3001 :: int) + \<lfloor>of_int 3001 * (- (1 / 2) :: rat)\<rfloor> = 1500"
  by (simp add: resolver_defs script_defs)

text \<open>
  C5, amended. The script's percentage delta, \<open>-0.5\<close>, on the outcome or on its random
  event, updates a net worth of magnitude up to \<open>2^53\<close> by
  \<open>net_worth += trunc(net_worth * -0.5)\<close>, where \<open>trunc\<close> rounds toward zero: the ceiling
  of a negative product, the floor of any other. The record then goes through the clamp.
  For the event, the net worth is the one the outcome's own effect left.
\<close>

theorem half_delta_rounds_toward_zero:
  "(eff_net_worth (o_effect oc) = None
      \<and> eff_net_worth_percentage (o_effect oc) = Some (- (1 / 2))
      \<and> triggered_event oc = None
      \<and> \<bar>net_worth st\<bar> \<le> 2 ^ 53
    \<longrightarrow> net_worth (snd (apply_outcome_and_get_message oc st))
         = (let n = net_worth st; x = of_int n * (- (1 / 2) :: rat);
                n' = n + (if x < 0 then \<lceil>x\<rceil> else \<lfloor>x\<rfloor>)
            in if status st = ''alive'' \<and> n' < 0 then 0 else n'))
   \<and> (eff_net_worth (o_effect oc) \<noteq> Some Die \<and> triggered_event oc = Some ev
      \<and> eff_net_worth (re_effect ev) = None
      \<and> eff_net_worth_percentage (re_effect ev) = Some (- (1 / 2))
      \<and> \<bar>net_worth (snd (apply_effect (o_effect oc) (o_message oc, st)))\<bar> \<le> 2 ^ 53
    \<longrightarrow> net_worth (snd (apply_outcome_and_get_message oc st))
         = (let n = net_worth (snd (apply_effect (o_effect oc) (o_message oc, st)));
                x = of_int n * (- (1 / 2) :: rat);
                n' = n + (if x < 0 then \<lceil>x\<rceil> else \<lfloor>x\<rfloor>)
            in if status st = ''alive'' \<and> n' < 0 then 0 else n'))"
proof (intro conjI impI)
  assume a: "eff_net_worth (o_effect oc) = None
      \<and> eff_net_worth_percentage (o_effect oc) = Some (- (1 / 2))
      \<and> triggered_event oc = None
      \<and> \<bar>net_worth st\<bar> \<le> 2 ^ 53"
  then have "snd (snd (before_win_check oc st))
      = clamp (st\<lparr>net_worth := net_worth st + py_int (of_int (net_worth st) * (- (1 / 2)))\<rparr>)"
    by (simp add: before_win_check_clamped apply_effect_def apply_random_event_none)
  then show "net_worth (snd (apply_outcome_and_get_message oc st))
         = (let n = net_worth st; x = of_int n * (- (1 / 2) :: rat);
                n' = n + (if x < 0 then \<lceil>x\<rceil> else \<lfloor>x\<rfloor>)
            in if status st = ''alive'' \<and> n' < 0 then 0 else n')"
    unfolding net_worth_result by (simp add: clamp_def Let_def py_int_toward_zero)
next
  assume a: "eff_net_worth (o_effect oc) \<noteq> Some Die \<and> triggered_event oc = Some ev
      \<and> eff_net_worth (re_effect ev) = None
      \<and> eff_net_worth_percentage (re_effect ev) = Some (- (1 / 2))
      \<and> \<bar>net_worth (snd (apply_effect (o_effect oc) (o_message oc, st)))\<bar> \<le> 2 ^ 53"
  obtain r1 s1 where own: "apply_effect (o_effect oc) (o_message oc, st) = (r1, s1)"
    by (cases "apply_effect (o_effect oc) (o_message oc, st)")
  have st1: "status s1 = status st" using a own
    by (auto simp: apply_effect_def split: option.splits net_worth_effect.splits)
  have "snd (snd (before_win_check oc st))
      = clamp (s1\<lparr>net_worth := net_worth s1 + py_int (of_int (net_worth s1) * (- (1 / 2)))\<rparr>)"
    using a own by (simp add: before_win_check_clamped apply_random_event_some apply_effect_def)
  then show "net_worth (snd (apply_outcome_and_get_message oc st))
         = (let n = net_worth (snd (apply_effect (o_effect oc) (o_message oc, st)));
                x = of_int n * (- (1 / 2) :: rat);
                n' = n + (if x < 0 then \<lceil>x\<rceil> else \<lfloor>x\<rfloor>)
            in if status st = ''alive'' \<and> n' < 0 then 0 else n')"
    unfolding net_worth_result using own st1 by (simp add: clamp_def Let_def py_int_toward_zero)
qed

theorem half_delta_rounds_toward_zero_witness:
  "(let oc = \<lparr>o_message = ''Half of it is gone.'',
               o_effect = \<lparr>eff_net_worth = None, eff_net_worth_percentage = Some (- (1 / 2)),
                            eff_random_event = None\<rparr>,
               o_next_state = Some ''hustle_q4''\<rparr>;
        st = player_at (Some ''hustle'') ''alive'' 3 (Some ''hustle_q3'')
    in eff_net_worth (o_effect oc) = None
       \<and> eff_net_worth_percentage (o_effect oc) = Some (- (1 / 2))
       \<and> triggered_event oc = None
       \<and> \<bar>net_worth st\<bar> \<le> 2 ^ 53
       \<and> net_worth (snd (apply_outcome_and_get_message oc st)) = 2)
   \<and> (let oc = \<lparr>o_message = ''You bet big on AI fashion!'',
               o_effect = delta_event 3000 ''ai_boom_bust'', o_next_state = None\<rparr>;
        ev = \<lparr>re_message = ''The AI bubble burst! You lost half your net worth but learned a valuable lesson. (-HALF)'',
               re_effect = \<lparr>eff_net_worth = None, eff_net_worth_percentage = Some (- (1 / 2)),
                             eff_random_event = None\<rparr>,
               re_next_state = Some (Some ''hustle_q4'')\<rparr>;
        st = player_at (Some ''hustle'') ''alive'' 1 (Some ''hustle_q3'')
    in eff_net_worth (o_effect oc) \<noteq> Some Die
       \<and> triggered_event oc = Some ev
       \<and> eff_net_worth (re_effect ev) = None
       \<and> eff_net_worth_percentage (re_effect ev) = Some (- (1 / 2))
       \<and> \<bar>net_worth (snd (apply_effect (o_effect oc) (o_message oc, st)))\<bar> \<le> 2 ^ 53
       \<and> net_worth (snd (apply_outcome_and_get_message oc st)) = 1501)"
proof -
  define oc1 where "oc1 = \<lparr>o_message = ''Half of it is gone.'',
               o_effect = \<lparr>eff_net_worth = None, eff_net_worth_percentage = Some (- (1 / 2) :: rat),
                            eff_random_event = None\<rparr>,
               o_next_state = Some ''hustle_q4''\<rparr>"
  define st1 where "st1 = player_at (Some ''hustle'') ''alive'' 3 (Some ''hustle_q3'')"
  define oc2 where "oc2 = \<lparr>o_message = ''You bet big on AI fashion!'',
               o_effect = delta_event 3000 ''ai_boom_bust'', o_next_state = None\<rparr>"
  define ev where "ev = \<lparr>re_message = ''The AI bubble burst! You lost half your net worth but learned a valuable lesson. (-HALF)'',
               re_effect = \<lparr>eff_net_worth = None, eff_net_worth_percentage = Some (- (1 / 2) :: rat),
                             eff_random_event = None\<rparr>,
               re_next_state = Some (Some ''hustle_q4'')\<rparr>"
  define st2 where "st2 = player_at (Some ''hustle'') ''alive'' 1 (Some ''hustle_q3'')"
  have h1: "eff_net_worth (o_effect oc1) = None
       \<and> eff_net_worth_percentage (o_effect oc1) = Some (- (1 / 2))
       \<and> triggered_event oc1 = None
       \<and> \<bar>net_worth st1\<bar> \<le> 2 ^ 53"
    by (simp add: oc1_def st1_def player_at_def triggered_event_def)
  have h2: "eff_net_worth (o_effect oc2) \<noteq> Some Die
       \<and> triggered_event oc2 = Some ev
       \<and> eff_net_worth (re_effect ev) = None
       \<and> eff_net_worth_percentage (re_effect ev) = Some (- (1 / 2))
       \<and> \<bar>net_worth (snd (apply_effect (o_effect oc2) (o_message oc2, st2)))\<bar> \<le> 2 ^ 53"
    by (simp add: oc2_def ev_def st2_def player_at_def triggered_event_def RANDOM_EVENTS_def
          delta_event_def apply_effect_def)
  have c1: "net_worth (snd (apply_outcome_and_get_message oc1 st1)) = 2"
    using half_delta_rounds_toward_zero [of oc1 st1 ev] h1
    by (simp add: st1_def player_at_def Let_def ceiling_def)
  have c2: "net_worth (snd (apply_outcome_and_get_message oc2 st2)) = 1501"
    using half_delta_rounds_toward_zero [of oc2 st2 ev] h2
    by (simp add: st2_def player_at_def oc2_def Let_def apply_effect_def delta_event_def
          ceiling_def)
  from h1 h2 c1 c2 show ?thesis
    unfolding oc1_def st1_def oc2_def ev_def st2_def Let_def by blast
qed

section \<open>Properties of the store\<close>

lemma loaded_no_empty_key: "get_user_state w k = Some s \<Longrightarrow> no_empty_key s"
  by (auto simp: get_user_state_def no_empty_key_def split: option.splits if_splits)

lemma fresh_no_empty_key: "no_empty_key (fresh_state k)"
  by (simp add: no_empty_key_def fresh_state_def)

lemma set_dead_no_empty_key: "no_empty_key (set_dead s)"
  by (simp add: no_empty_key_def set_dead_def)

lemma apply_effect_no_empty_key:
  "no_empty_key s \<Longrightarrow> no_empty_key (snd (apply_effect e (r, s)))"
  by (simp add: apply_effect_def no_empty_key_def set_dead_def
        split: option.splits net_worth_effect.splits)

lemma resolver_no_empty_key:
  assumes "no_empty_key s"
  shows "no_empty_key (snd (apply_outcome_and_get_message oc s))"
proof -
  obtain r1 s1 where own: "apply_effect (o_effect oc) (o_message oc, s) = (r1, s1)"
    by (cases "apply_effect (o_effect oc) (o_message oc, s)")
  have k1: "no_empty_key s1"
    using apply_effect_no_empty_key [OF assms, of "o_effect oc" "o_message oc"] own by simp
  have k2: "no_empty_key (snd (snd (apply_random_event oc (r1, s1))))"
  proof (cases "triggered_event oc")
    case None
    then show ?thesis using k1 by (simp add: apply_random_event_none)
  next
    case (Some ev)
    then show ?thesis
      using apply_effect_no_empty_key [OF k1, of "re_effect ev" "r1 @ nl @ re_message ev"]
      by (simp add: apply_random_event_some)
  qed
  have k3: "no_empty_key (snd (snd (before_win_check oc s)))"
    using k2 own by (simp add: before_win_check_clamped clamp_def no_empty_key_def)
  show ?thesis
    using k3 unfolding resolver_result Let_def
    by (auto simp: no_empty_key_def set_dead_def split: option.splits)
qed

lemma next_prompt_no_empty_key:
  "no_empty_key s \<Longrightarrow> no_empty_key (snd (next_prompt (r, s)))"
  by (auto simp: next_prompt_def no_empty_key_def set_dead_def
        split: option.splits entry.splits)

lemma intro_turn_no_empty_key:
  assumes "no_empty_key s"
  shows "no_empty_key (snd (intro_turn txt s))"
proof -
  have k: "no_empty_key (s\<lparr>current_q := n_next_state hustle_intro\<rparr>)"
    using assms by (simp add: no_empty_key_def hustle_intro_def)
  have "no_empty_key (snd (next_prompt (apply_outcome_and_get_message oc
            (s\<lparr>current_q := n_next_state hustle_intro\<rparr>))))" for oc
    using next_prompt_no_empty_key [OF resolver_no_empty_key [OF k, of oc]]
    by (cases "apply_outcome_and_get_message oc (s\<lparr>current_q := n_next_state hustle_intro\<rparr>)")
       simp
  then show ?thesis using assms k
    by (auto simp: intro_turn_def Let_def set_dead_no_empty_key split: option.splits)
qed

text \<open>
  C10. With the table initialised, a record the program can hold (no empty string for the
  game or the current node) and the table can store (\<open>storable\<close>) is saved, and reading it
  back under its phone number returns an equal record: the integer fields unchanged,
  \<^verbatim>\<open>None\<close> through the empty string back to \<^verbatim>\<open>None\<close>.
\<close>

theorem save_then_get:
  assumes "users_table w = Some table" and "no_empty_key s" and "storable s"
  shows "fst (save_user_state s w) \<and>
         get_user_state (snd (save_user_state s w)) (phoneNumber s) = Some s"
  using assms(1,2)
  by (cases "game s"; cases "current_q s")
     (simp_all add: save_user_state_def get_user_state_def no_empty_key_def Let_def)

theorem save_then_get_witness:
  "users_table no_players = Some Map.empty
   \<and> no_empty_key (player_at None ''alive'' 9000 (Some ''check_win''))
   \<and> storable (player_at None ''alive'' 9000 (Some ''check_win''))
   \<and> fst (save_user_state (player_at None ''alive'' 9000 (Some ''check_win'')) no_players)
   \<and> get_user_state
        (snd (save_user_state (player_at None ''alive'' 9000 (Some ''check_win'')) no_players))
        (phoneNumber (player_at None ''alive'' 9000 (Some ''check_win'')))
       = Some (player_at None ''alive'' 9000 (Some ''check_win''))"
proof -
  have t: "users_table no_players = Some Map.empty" by (simp add: no_players_def)
  have k: "no_empty_key (player_at None ''alive'' 9000 (Some ''check_win''))"
    by (simp add: no_empty_key_def player_at_def)
  have s: "storable (player_at None ''alive'' 9000 (Some ''check_win''))"
    by (simp add: storable_def player_at_def)
  from save_then_get [OF t k s] t k s show ?thesis by blast
qed


section \<open>Properties of the turn orchestrator\<close>

lemma lower_char_other:
  "c \<notin> set ''ABCDEFGHIJKLMNOPQRSTUVWXYZ'' \<Longrightarrow> lower_char c = c"
  by (simp add: lower_char_def)

lemma upper_lower_capitals:
  "\<forall>c \<in> set ''ABCDEFGHIJKLMNOPQRSTUVWXYZ''. upper_char (lower_char c) = upper_char c"
  by (simp add: upper_char_def lower_char_def)

lemma upper_lower_char: "upper_char (lower_char c) = upper_char c"
proof (cases "c \<in> set ''ABCDEFGHIJKLMNOPQRSTUVWXYZ''")
  case True
  with upper_lower_capitals show ?thesis by blast
next
  case False
  from lower_char_other [OF False] show ?thesis by simp
qed

lemma spaces_are_no_capitals:
  "\<forall>c \<in> set [CHR 0x09, CHR 0x0A, CHR 0x0B, CHR 0x0C, CHR 0x0D,
               CHR 0x1C, CHR 0x1D, CHR 0x1E, CHR 0x1F, CHR 0x20].
     c \<notin> set ''ABCDEFGHIJKLMNOPQRSTUVWXYZ''"
  by simp

lemma space_lower_char: "is_space c \<Longrightarrow> lower_char c = c"
proof -
  assume "is_space c"
  then have "c \<notin> set ''ABCDEFGHIJKLMNOPQRSTUVWXYZ''"
    unfolding is_space_def using spaces_are_no_capitals by blast
  then show ?thesis by (rule lower_char_other)
qed

lemma dropWhile_keeps: "xs \<noteq> [] \<Longrightarrow> \<not> P (hd xs) \<Longrightarrow> dropWhile P xs = xs"
  by (cases xs) auto

lemma strip_keeps:
  assumes "xs \<noteq> []" "\<not> is_space (hd xs)" "\<not> is_space (last xs)"
  shows "strip xs = xs"
proof -
  have "dropWhile is_space xs = xs" using assms by (simp add: dropWhile_keeps)
  moreover have "dropWhile is_space (rev xs) = rev xs"
    using assms by (simp add: dropWhile_keeps hd_rev)
  ultimately show ?thesis by (simp add: strip_def)
qed

lemma ci_restart_normalised:
  assumes "ci_equal raw ''RESTART''"
  shows "upper (strip raw) = ''RESTART''"
proof -
  have "map lower_char ''RESTART'' = ''restart''"
    by (simp add: lower_char_def)
  with assms have m: "map lower_char raw = ''restart''"
    by (simp only: ci_equal_def)
  have ne: "raw \<noteq> []"
  proof
    assume "raw = []"
    with m show False by simp
  qed
  have "hd (map lower_char raw) = CHR ''r''" unfolding m by simp
  then have h: "lower_char (hd raw) = CHR ''r''" using ne by (simp add: hd_map)
  have "last (map lower_char raw) = CHR ''t''" unfolding m by simp
  then have l: "lower_char (last raw) = CHR ''t''" using ne by (simp add: last_map)
  have r: "\<not> is_space (CHR ''r'')" and t: "\<not> is_space (CHR ''t'')"
    by (simp_all add: is_space_def)
  have nh: "\<not> is_space (hd raw)"
  proof
    assume s: "is_space (hd raw)"
    from space_lower_char [OF s] h have "hd raw = CHR ''r''" by (simp only:)
    with s r show False by (simp only:)
  qed
  have nl: "\<not> is_space (last raw)"
  proof
    assume s: "is_space (last raw)"
    from space_lower_char [OF s] l have "last raw = CHR ''t''" by (simp only:)
    with s t show False by (simp only:)
  qed
  have s: "strip raw = raw" using ne nh nl by (rule strip_keeps)
  have "upper raw = map upper_char (map lower_char raw)"
    by (simp add: upper_def upper_lower_char)
  also have "\<dots> = map upper_char ''restart''" by (simp only: m)
  also have "\<dots> = ''RESTART''" by (simp add: upper_char_def)
  finally show ?thesis by (simp only: s)
qed

text \<open>
  C9. Whatever the table holds for the sender, a message that equals \<^verbatim>\<open>RESTART\<close> without
  regard to case leaves the fresh record (no game, alive, net worth 0, no days survived, no
  current node, the sender's phone number without \<^verbatim>\<open>+\<close>) in the table, and the top-level
  menu is the reply. The table is taken to be initialised and the SMS service to be there.
\<close>

theorem restart_resets:
  assumes "ev_from ev = Some sender" and "sender \<noteq> []"
    and "ev_text ev = Some raw" and "ci_equal raw ''RESTART''"
    and "users_table w = Some table" and "sms_service w"
  shows "get_user_state (snd (inbound_sms_handler ev w)) (remove_plus sender)
           = Some \<lparr>phoneNumber = remove_plus sender, game = None, status = ''alive'',
                   net_worth = 0, days_survived = 0, current_q = None\<rparr>
       \<and> outbox (snd (inbound_sms_handler ev w))
           = outbox w @ [(sender, ''Welcome back! '' @ menu_lines)]
       \<and> statusCode (fst (inbound_sms_handler ev w)) = 200"
proof -
  have "upper (strip raw) = ''RESTART''" using assms(4) by (rule ci_restart_normalised)
  then have "inbound_sms_handler ev w = process_message sender ''RESTART'' w"
    using assms by (simp add: inbound_sms_handler_def)
  then show ?thesis using assms(5,6)
    by (simp add: process_message_def save_user_state_def get_user_state_def send_sms_reply_def
          fresh_state_def Let_def)
qed

theorem restart_resets_witness:
  "ev_from (sms ''Restart'') = Some ''+254700000001'' \<and> ''+254700000001'' \<noteq> []
   \<and> ev_text (sms ''Restart'') = Some ''Restart'' \<and> ci_equal ''Restart'' ''RESTART''
   \<and> users_table (holding (player_at (Some ''hustle'') ''alive'' 4000 (Some ''hustle_q3'')))
        = Some [''254700000001'' \<mapsto> player_at (Some ''hustle'') ''alive'' 4000 (Some ''hustle_q3'')]
   \<and> sms_service (holding (player_at (Some ''hustle'') ''alive'' 4000 (Some ''hustle_q3'')))
   \<and> get_user_state
         (snd (inbound_sms_handler (sms ''Restart'')
                (holding (player_at (Some ''hustle'') ''alive'' 4000 (Some ''hustle_q3'')))))
         ''254700000001''
       = Some \<lparr>phoneNumber = ''254700000001'', game = None, status = ''alive'',
               net_worth = 0, days_survived = 0, current_q = None\<rparr>"
proof -
  define w where "w = holding (player_at (Some ''hustle'') ''alive'' 4000 (Some ''hustle_q3''))"
  have f: "ev_from (sms ''Restart'') = Some ''+254700000001''" by (simp add: sms_def)
  have n: "''+254700000001'' \<noteq> []" by simp
  have x: "ev_text (sms ''Restart'') = Some ''Restart''" by (simp add: sms_def)
  have c: "ci_equal ''Restart'' ''RESTART''" by (simp add: ci_equal_def lower_char_def)
  have t: "users_table w
        = Some [''254700000001'' \<mapsto> player_at (Some ''hustle'') ''alive'' 4000 (Some ''hustle_q3'')]"
    by (simp add: w_def holding_def player_at_def)
  have s: "sms_service w" by (simp add: w_def holding_def)
  have r: "remove_plus ''+254700000001'' = ''254700000001''" by (simp add: remove_plus_def)
  from restart_resets [OF f n x c t s] r
  have "get_user_state (snd (inbound_sms_handler (sms ''Restart'') w)) ''254700000001''
       = Some \<lparr>phoneNumber = ''254700000001'', game = None, status = ''alive'',
               net_worth = 0, days_survived = 0, current_q = None\<rparr>"
    by simp
  with f n x c t s show ?thesis unfolding w_def by blast
qed

lemma terminal_texts_hold_no_key:
  "\<not> sublist ''outcomes'' death_scam \<and> \<not> sublist ''options'' death_scam
   \<and> \<not> sublist ''outcomes'' death_starved \<and> \<not> sublist ''options'' death_starved
   \<and> \<not> sublist ''outcomes'' win_hustle \<and> \<not> sublist ''options'' win_hustle
   \<and> \<not> sublist ''outcomes'' default_death \<and> \<not> sublist ''options'' default_death"
  by (simp add: death_scam_def death_starved_def win_hustle_def default_death_def skull_def
        sublist_Cons_right)

lemmas store_defs = get_user_state_def save_user_state_def send_sms_reply_def

lemmas node_defs = hustle_intro_def hustle_q1_def hustle_q2_def hustle_q3_def hustle_q4_def

lemmas text_defs = upper_def upper_char_def strip_def is_space_def remove_plus_def

lemma handler_parsed:
  "ev_from ev = Some sender \<Longrightarrow> sender \<noteq> [] \<Longrightarrow> ev_text ev = Some raw
   \<Longrightarrow> upper (strip raw) \<noteq> []
   \<Longrightarrow> inbound_sms_handler ev w = process_message sender (upper (strip raw)) w"
  by (simp add: inbound_sms_handler_def)

lemma same_fields:
  "game st = g \<Longrightarrow> current_q st = q \<Longrightarrow> st\<lparr>game := g, current_q := q\<rparr> = st"
  by (cases st) auto

lemmas turn_defs =
  inbound_sms_handler_def process_message_def game_selection_def hustle_turn_def
  intro_turn_def next_prompt_def fresh_state_def outcomes_of_def options_of_def
  GAME_DATA_get_def GAME_DATA_def

lemmas example_defs = sms_def holding_def player_at_def no_players_def

lemmas all_defs =
  example_defs turn_defs store_defs text_defs node_defs resolver_defs script_defs Let_def

lemma question_turn:
  assumes "current_q st = Some key" and "key \<noteq> ''hustle_intro''"
    and "outcomes_of (GAME_DATA_get (Some key)) = Some outs"
    and "txt \<in> set [''1'', ''2'', ''3'']" and "outs txt = Some oc"
  shows "snd (hustle_turn sender txt st w)
      = send_sms_reply sender (fst (next_prompt (apply_outcome_and_get_message oc st)))
          (snd (save_user_state (snd (next_prompt (apply_outcome_and_get_message oc st))) w))"
  using assms by (simp add: hustle_turn_def Let_def split_beta)





text \<open>
  C7, as the claim states it, fails for a net worth below 4000, where the clamp returns 0
  rather than the net worth less 4000 (a player can reach \<^verbatim>\<open>hustle_q2\<close> with 0), and for
  a net worth of 14000 or more, where the win check ends the game and there is no current
  node.
\<close>

theorem lend_money_counterexample:
  "get_user_state
     (snd (inbound_sms_handler (sms ''1'')
            (holding (player_at (Some ''hustle'') ''alive'' 0 (Some ''hustle_q2'')))))
     ''254700000001''
     = Some (player_at (Some ''hustle'') ''alive'' 0 (Some ''hustle_q3''))
   \<and> get_user_state
     (snd (inbound_sms_handler (sms ''1'')
            (holding (player_at (Some ''hustle'') ''alive'' 14000 (Some ''hustle_q2'')))))
     ''254700000001''
     = Some (player_at None ''dead'' 10000 None)"
  by (simp add: all_defs)

text \<open>
  C7, amended. For a record alive at \<^verbatim>\<open>hustle_q2\<close>, input \<^verbatim>\<open>1\<close> applies the outcome's
  \<open>-2000\<close> and then the \<^verbatim>\<open>ghosted\<close> event's \<open>-2000\<close>, with the event's next state
  \<^verbatim>\<open>hustle_q3\<close> in place of the outcome's \<^verbatim>\<open>None\<close>; when the net worth less 4000 is below
  the goal, the record persisted has the net worth less 4000, or 0 if that is negative, and
  the current node \<^verbatim>\<open>hustle_q3\<close>.
\<close>

theorem lend_money_turn:
  assumes "ev_from ev = Some sender" and "sender \<noteq> []" and "ev_text ev = Some ''1''"
    and "users_table w = Some table"
    and "get_user_state w (remove_plus sender) = Some st"
    and "phoneNumber st = remove_plus sender"
    and "game st = Some ''hustle''" and "status st = ''alive''"
    and "current_q st = Some ''hustle_q2''"
    and "net_worth st - 4000 < HUSTLE_GOAL"
  shows "apply_random_event
           \<lparr>o_message = ''You lent the money. Fingers crossed!'',
            o_effect = delta_event (- 2000) ''ghosted'', o_next_state = None\<rparr>
           (apply_effect (delta_event (- 2000) ''ghosted'')
              (''You lent the money. Fingers crossed!'', st))
         = (''You lent the money. Fingers crossed!'' @ nl
              @ ''Oh no! Your cousin ghosted you! That KES 2000 is gone forever. (-KES 2000)'',
            Some ''hustle_q3'',
            st\<lparr>net_worth := net_worth st - 2000 - 2000\<rparr>)
       \<and> get_user_state (snd (inbound_sms_handler ev w)) (remove_plus sender)
         = Some (st\<lparr>net_worth := max 0 (net_worth st - 4000),
                    current_q := Some ''hustle_q3''\<rparr>)"
proof -
  define oc where "oc = \<lparr>o_message = ''You lent the money. Fingers crossed!'',
            o_effect = delta_event (- 2000) ''ghosted'', o_next_state = None\<rparr>"
  define st' where "st' = st\<lparr>net_worth := max 0 (net_worth st - 4000),
                    current_q := Some ''hustle_q3''\<rparr>"
  have n: "upper (strip ''1'') = ''1''" by (simp add: text_defs)
  have h: "inbound_sms_handler ev w = process_message sender ''1'' w"
    using assms(1-3) n handler_parsed [of ev sender "''1''" w] by simp
  have p: "process_message sender ''1'' w = hustle_turn sender ''1'' st w"
    using assms(5,7,8) by (simp add: process_message_def Let_def)
  have e: "apply_random_event oc (apply_effect (o_effect oc) (o_message oc, st))
         = (''You lent the money. Fingers crossed!'' @ nl
              @ ''Oh no! Your cousin ghosted you! That KES 2000 is gone forever. (-KES 2000)'',
            Some ''hustle_q3'',
            st\<lparr>net_worth := net_worth st - 2000 - 2000\<rparr>)"
    by (simp add: oc_def apply_random_event_def apply_effect_def script_defs)
  have r: "snd (apply_outcome_and_get_message oc st) = st'"
    using assms(8,10) unfolding apply_outcome_and_get_message_def before_win_check_def e
    by (simp add: st'_def clamp_def max_def HUSTLE_GOAL_def)
  have a: "status st' = ''alive''" "current_q st' = Some ''hustle_q3''" "game st' = Some ''hustle''"
    "phoneNumber st' = remove_plus sender"
    using assms(6,7,8) by (simp_all add: st'_def)
  have np: "snd (next_prompt (apply_outcome_and_get_message oc st)) = st'"
    using r a(1,2)
    by (cases "apply_outcome_and_get_message oc st")
       (simp add: next_prompt_def GAME_DATA_get_def GAME_DATA_def)
  have o: "outcomes_of (GAME_DATA_get (Some ''hustle_q2'')) = Some (map_of [
       (''1'', oc),
       (''2'', \<lparr>o_message = ''You lent half. Better safe than sorry.'',
                o_effect = delta (- 1000), o_next_state = Some ''hustle_q3''\<rparr>),
       (''3'', \<lparr>o_message = ''You kept your funds. Wise choice.'',
                o_effect = delta 0, o_next_state = Some ''hustle_q3''\<rparr>)])"
    by (simp add: outcomes_of_def GAME_DATA_get_def GAME_DATA_def hustle_q2_def oc_def)
  have w': "snd (hustle_turn sender ''1'' st w)
      = send_sms_reply sender (fst (next_prompt (apply_outcome_and_get_message oc st)))
          (snd (save_user_state st' w))"
    using question_turn [OF assms(9) _ o, of "''1''" oc sender w] np by simp
  have sv: "snd (save_user_state st' w)
      = w\<lparr>users_table := Some (table(remove_plus sender \<mapsto> st')), puts := puts w @ [st']\<rparr>"
    using assms(4) a by (simp add: save_user_state_def Let_def same_fields)
  have "get_user_state (snd (inbound_sms_handler ev w)) (remove_plus sender) = Some st'"
    unfolding h p w' sv using a
    by (simp add: send_sms_reply_def get_user_state_def same_fields)
  with e show ?thesis unfolding oc_def st'_def by simp
qed

theorem lend_money_turn_witness:
  "ev_from (sms ''1'') = Some ''+254700000001'' \<and> ''+254700000001'' \<noteq> []
   \<and> ev_text (sms ''1'') = Some ''1''
   \<and> users_table (holding (player_at (Some ''hustle'') ''alive'' 5000 (Some ''hustle_q2'')))
      = Some [''254700000001'' \<mapsto> player_at (Some ''hustle'') ''alive'' 5000 (Some ''hustle_q2'')]
   \<and> get_user_state (holding (player_at (Some ''hustle'') ''alive'' 5000 (Some ''hustle_q2'')))
        (remove_plus ''+254700000001'')
      = Some (player_at (Some ''hustle'') ''alive'' 5000 (Some ''hustle_q2''))
   \<and> phoneNumber (player_at (Some ''hustle'') ''alive'' 5000 (Some ''hustle_q2''))
      = remove_plus ''+254700000001''
   \<and> net_worth (player_at (Some ''hustle'') ''alive'' 5000 (Some ''hustle_q2'')) - 4000
      < HUSTLE_GOAL
   \<and> get_user_state
       (snd (inbound_sms_handler (sms ''1'')
              (holding (player_at (Some ''hustle'') ''alive'' 5000 (Some ''hustle_q2'')))))
       ''254700000001''
     = Some (player_at (Some ''hustle'') ''alive'' 1000 (Some ''hustle_q3''))"
proof -
  define st where "st = player_at (Some ''hustle'') ''alive'' 5000 (Some ''hustle_q2'')"
  define w where "w = holding st"
  have f: "ev_from (sms ''1'') = Some ''+254700000001''" by (simp add: sms_def)
  have n: "''+254700000001'' \<noteq> []" by simp
  have x: "ev_text (sms ''1'') = Some ''1''" by (simp add: sms_def)
  have r: "remove_plus ''+254700000001'' = ''254700000001''" by (simp add: remove_plus_def)
  have t: "users_table w = Some [''254700000001'' \<mapsto> st]"
    by (simp add: w_def st_def holding_def player_at_def)
  have l: "get_user_state w (remove_plus ''+254700000001'') = Some st"
    by (simp add: r w_def st_def holding_def player_at_def get_user_state_def)
  have p: "phoneNumber st = remove_plus ''+254700000001''"
    by (simp add: r st_def player_at_def)
  have g: "game st = Some ''hustle''" and a: "status st = ''alive''"
    and q: "current_q st = Some ''hustle_q2''"
    by (simp_all add: st_def player_at_def)
  have b: "net_worth st - 4000 < HUSTLE_GOAL"
    by (simp add: st_def player_at_def HUSTLE_GOAL_def)
  from lend_money_turn [OF f n x t l p g a q b]
  have "get_user_state (snd (inbound_sms_handler (sms ''1'') w)) ''254700000001''
      = Some (player_at (Some ''hustle'') ''alive'' 1000 (Some ''hustle_q3''))"
    by (simp add: r st_def player_at_def)
  with f n x t l p b show ?thesis unfolding w_def st_def by blast
qed

text \<open>
  C8 does not hold of the code. A dead record has no game, and line 321 takes the turn for a
  game selection without looking at the status: the message \<^verbatim>\<open>1\<close> sets the game and the
  current node of the dead record, saves it, and is answered with the intro prompt.
\<close>

theorem dead_player_message_changes_record:
  "get_user_state (holding (player_at (Some []) ''dead'' 13000 (Some []))) ''254700000001''
     = Some (player_at None ''dead'' 13000 None)
   \<and> get_user_state
       (snd (inbound_sms_handler (sms ''1'')
              (holding (player_at (Some []) ''dead'' 13000 (Some [])))))
       ''254700000001''
     = Some (player_at (Some ''hustle'') ''dead'' 13000 (Some ''hustle_intro''))
   \<and> puts (snd (inbound_sms_handler (sms ''1'')
               (holding (player_at (Some []) ''dead'' 13000 (Some [])))))
     = [player_at (Some ''hustle'') ''dead'' 13000 (Some ''hustle_intro'')]
   \<and> outbox (snd (inbound_sms_handler (sms ''1'')
                 (holding (player_at (Some []) ''dead'' 13000 (Some [])))))
     = [(''+254700000001'', n_message hustle_intro @ nl @ join nl (n_options hustle_intro))]"
  by (simp add: all_defs)

lemma turn_1_selects_hustle:
  "users_table w = Some Map.empty \<Longrightarrow>
   users_table (snd (inbound_sms_handler (sms ''1'') w))
     = Some [''254700000001'' \<mapsto> player_at (Some ''hustle'') ''alive'' 0 (Some ''hustle_intro'')]"
  by (simp add: sms_def player_at_def turn_defs store_defs text_defs node_defs Let_def)

lemma turn_2_first_move:
  "users_table w = Some [''254700000001'' \<mapsto> player_at (Some ''hustle'') ''alive'' 0 (Some ''hustle_intro'')] \<Longrightarrow>
   users_table (snd (inbound_sms_handler (sms ''1'') w))
     = Some [''254700000001'' \<mapsto> player_at (Some ''hustle'') ''alive'' 5000 (Some ''hustle_q2'')]"
  by (simp add: sms_def player_at_def turn_defs store_defs text_defs node_defs resolver_defs script_defs Let_def)

lemma turn_3_lends_half:
  "users_table w = Some [''254700000001'' \<mapsto> player_at (Some ''hustle'') ''alive'' 5000 (Some ''hustle_q2'')] \<Longrightarrow>
   users_table (snd (inbound_sms_handler (sms ''2'') w))
     = Some [''254700000001'' \<mapsto> player_at (Some ''hustle'') ''alive'' 4000 (Some ''hustle_q3'')]"
  by (simp add: sms_def player_at_def turn_defs store_defs text_defs node_defs resolver_defs script_defs Let_def)

lemma turn_4_careful_pivot:
  "users_table w = Some [''254700000001'' \<mapsto> player_at (Some ''hustle'') ''alive'' 4000 (Some ''hustle_q3'')] \<Longrightarrow>
   users_table (snd (inbound_sms_handler (sms ''2'') w))
     = Some [''254700000001'' \<mapsto> player_at (Some ''hustle'') ''alive'' 5000 (Some ''hustle_q4'')]"
  by (simp add: sms_def player_at_def turn_defs store_defs text_defs node_defs resolver_defs script_defs Let_def)

lemma turn_5_sells_and_wins:
  "users_table w = Some [''254700000001'' \<mapsto> player_at (Some ''hustle'') ''alive'' 5000 (Some ''hustle_q4'')] \<Longrightarrow>
   users_table (snd (inbound_sms_handler (sms ''1'') w))
     = Some [''254700000001'' \<mapsto> player_at (Some []) ''dead'' 13000 (Some [])]"
  by (simp add: sms_def player_at_def turn_defs store_defs text_defs node_defs resolver_defs script_defs Let_def)

lemma turn_6_selects_again:
  "users_table w = Some [''254700000001'' \<mapsto> player_at (Some []) ''dead'' 13000 (Some [])] \<Longrightarrow>
   users_table (snd (inbound_sms_handler (sms ''1'') w))
     = Some [''254700000001'' \<mapsto> player_at (Some ''hustle'') ''dead'' 13000 (Some ''hustle_intro'')]"
  by (simp add: sms_def player_at_def turn_defs store_defs text_defs node_defs resolver_defs script_defs Let_def)

text \<open>
  C4 does not hold of the code. A player who has won is persisted dead with no game and no
  current node; the next message \<^verbatim>\<open>1\<close> is taken as a game selection, which sets the game
  and the current node and leaves the status dead. The record persisted is then dead with
  a game and a current node.
\<close>

theorem dead_player_selects_game:
  "get_user_state
     (run_turns [sms ''1'', sms ''1'', sms ''2'', sms ''2'', sms ''1''] no_players)
     ''254700000001''
     = Some (player_at None ''dead'' 13000 None)
   \<and> get_user_state
     (run_turns [sms ''1'', sms ''1'', sms ''2'', sms ''2'', sms ''1'', sms ''1''] no_players)
     ''254700000001''
     = Some (player_at (Some ''hustle'') ''dead'' 13000 (Some ''hustle_intro''))"
proof -
  have e: "users_table no_players = Some Map.empty" by (simp add: no_players_def)
  note s5 = turn_5_sells_and_wins [OF turn_4_careful_pivot [OF turn_3_lends_half
    [OF turn_2_first_move [OF turn_1_selects_hustle [OF e]]]]]
  note s6 = turn_6_selects_again [OF s5]
  have "get_user_state
     (run_turns [sms ''1'', sms ''1'', sms ''2'', sms ''2'', sms ''1''] no_players)
     ''254700000001'' = Some (player_at None ''dead'' 13000 None)"
    using s5 by (simp add: get_user_state_def player_at_def)
  moreover have "get_user_state
     (run_turns [sms ''1'', sms ''1'', sms ''2'', sms ''2'', sms ''1'', sms ''1''] no_players)
     ''254700000001''
     = Some (player_at (Some ''hustle'') ''dead'' 13000 (Some ''hustle_intro''))"
    using s6 by (simp add: get_user_state_def player_at_def)
  ultimately show ?thesis by blast
qed



end
